theory Spec2Isabelle
  imports Main "HOL-Library.Sublist"
begin

section \<open>JavaScript built-ins used by the worker\<close>

text \<open>
  Strings are lists of 8-bit code units (the Latin-1 range of JavaScript's UTF-16 strings).
  A thrown error is represented by its message; the wording of the engine's own
  \<open>TypeError\<close> messages is engine-specific and only their presence matters below.
  A value that may be \<open>undefined\<close> or \<open>null\<close> is an \<open>option\<close>.
\<close>

type_synonym error = string

definition undefined_to_string :: "string option \<Rightarrow> string" where
  \<comment> \<open>ToString of a value that is a string or \<open>undefined\<close>\<close>
  "undefined_to_string v = (case v of None \<Rightarrow> ''undefined'' | Some s \<Rightarrow> s)"

definition null_to_string :: "string option \<Rightarrow> string" where
  \<comment> \<open>ToString of a value that is a string or \<open>null\<close>\<close>
  "null_to_string v = (case v of None \<Rightarrow> ''null'' | Some s \<Rightarrow> s)"

definition startsWith :: "string \<Rightarrow> string \<Rightarrow> bool" where
  "startsWith s searchString = prefix searchString s"

definition toLowerCase_char :: "char \<Rightarrow> char" where
  "toLowerCase_char c =
     (let n = (of_char c :: nat)
      in if (65 \<le> n \<and> n \<le> 90) \<or> (192 \<le> n \<and> n \<le> 214) \<or> (216 \<le> n \<and> n \<le> 222)
         then char_of (n + 32) else c)"

definition toLowerCase :: "string \<Rightarrow> string" where
  "toLowerCase s = map toLowerCase_char s"

text \<open>\<open>s.split(sep)\<close> for a one-character separator, and \<open>Array.prototype.pop\<close>.\<close>

fun split_from :: "char \<Rightarrow> string \<Rightarrow> string \<Rightarrow> string list" where
  "split_from sep cur [] = [cur]"
| "split_from sep cur (c # cs) =
     (if c = sep then cur # split_from sep [] cs else split_from sep (cur @ [c]) cs)"

definition js_split :: "string \<Rightarrow> char \<Rightarrow> string list" where
  "js_split s sep = split_from sep [] s"

definition pop :: "'a list \<Rightarrow> 'a option" where
  "pop xs = (if xs = [] then None else Some (last xs))"

text \<open>
  \<open>parseInt(v, 10)\<close>: leading white space is skipped, one sign is accepted, the longest
  prefix of decimal digits is read; \<open>None\<close> is \<open>NaN\<close>. The result is kept as an unbounded
  integer: rounding to a double is monotone and leaves every integer up to \<open>2^53\<close> unchanged,
  so the comparison with \<open>50 * 1024 * 1024\<close> is not affected.
\<close>

definition isStrWhiteSpaceChar :: "char \<Rightarrow> bool" where
  "isStrWhiteSpaceChar c = ((of_char c :: nat) \<in> {9, 10, 11, 12, 13, 32, 160})"

definition isDigit :: "char \<Rightarrow> bool" where
  "isDigit c = (48 \<le> (of_char c :: nat) \<and> (of_char c :: nat) \<le> 57)"

fun digits_value :: "int \<Rightarrow> string \<Rightarrow> int" where
  "digits_value acc [] = acc"
| "digits_value acc (c # cs) = digits_value (10 * acc + (int (of_char c) - 48)) cs"

definition parseInt10 :: "string option \<Rightarrow> int option" where
  "parseInt10 v =
     (let inputString = null_to_string v;
          S = dropWhile isStrWhiteSpaceChar inputString;
          negative = (case S of [] \<Rightarrow> False | c # _ \<Rightarrow> c = CHR ''-'');
          S' = (case S of [] \<Rightarrow> []
                | c # cs \<Rightarrow> if c = CHR ''+'' \<or> c = CHR ''-'' then cs else S);
          Z = takeWhile isDigit S'
      in if Z = [] then None
         else Some ((if negative then - 1 else 1) * digits_value 0 Z))"

definition greater_than :: "int option \<Rightarrow> int \<Rightarrow> bool" where
  \<comment> \<open>\<open>x > n\<close> for a number that may be \<open>NaN\<close>: every comparison with \<open>NaN\<close> is false\<close>
  "greater_than x n = (case x of None \<Rightarrow> False | Some m \<Rightarrow> m > n)"

subsection \<open>The URL constructor\<close>

text \<open>
  \<open>new URL(string)\<close> without a base, after the URL standard's basic parser: the input is
  trimmed, the scheme is read, and a URL without a scheme fails. A non-special scheme not
  followed by \<open>//\<close> gives an opaque path or a plain path, which always parses and has no
  host. Everything else (special schemes, and \<open>//\<close> after a non-special one) goes through
  the authority, host and port states, whose host parser (IDNA, IPv4, IPv6) is not modelled:
  that stage is the parameter \<open>authority\<close>, from the scheme and the rest of the input to the
  parsed URL, \<open>None\<close> on failure.
\<close>

record url =
  scheme :: string
  host :: "string option"

type_synonym authority_parser = "string \<Rightarrow> string \<Rightarrow> url option"

definition isC0ControlOrSpace :: "char \<Rightarrow> bool" where
  "isC0ControlOrSpace c = ((of_char c :: nat) \<le> 32)"

definition isAsciiTabOrNewline :: "char \<Rightarrow> bool" where
  "isAsciiTabOrNewline c = ((of_char c :: nat) \<in> {9, 10, 13})"

definition isAsciiAlpha :: "char \<Rightarrow> bool" where
  "isAsciiAlpha c =
     (let n = (of_char c :: nat) in (65 \<le> n \<and> n \<le> 90) \<or> (97 \<le> n \<and> n \<le> 122))"

definition asciiLowercase :: "char \<Rightarrow> char" where
  "asciiLowercase c =
     (let n = (of_char c :: nat) in if 65 \<le> n \<and> n \<le> 90 then char_of (n + 32) else c)"

definition trim_input :: "string \<Rightarrow> string" where
  "trim_input s =
     filter (\<lambda>c. \<not> isAsciiTabOrNewline c)
       (rev (dropWhile isC0ControlOrSpace (rev (dropWhile isC0ControlOrSpace s))))"

fun scheme_state :: "string \<Rightarrow> string \<Rightarrow> (string \<times> string) option" where
  "scheme_state buffer [] = None"
| "scheme_state buffer (c # cs) =
     (if isAsciiAlpha c \<or> isDigit c \<or> c = CHR ''+'' \<or> c = CHR ''-'' \<or> c = CHR ''.''
      then scheme_state (buffer @ [asciiLowercase c]) cs
      else if c = CHR '':'' then Some (buffer, cs)
      else None)"

definition scheme_start_state :: "string \<Rightarrow> (string \<times> string) option" where
  "scheme_start_state s =
     (case s of [] \<Rightarrow> None
      | c # cs \<Rightarrow> if isAsciiAlpha c then scheme_state [asciiLowercase c] cs else None)"

definition special_schemes :: "string list" where
  "special_schemes = [''ftp'', ''file'', ''http'', ''https'', ''ws'', ''wss'']"

definition basic_url_parser :: "authority_parser \<Rightarrow> string \<Rightarrow> url option" where
  "basic_url_parser authority input =
     (case scheme_start_state (trim_input input) of
        None \<Rightarrow> None
      | Some (sch, remaining) \<Rightarrow>
          if sch \<in> set special_schemes \<or> startsWith remaining ''//''
          then authority sch remaining
          else Some \<lparr>scheme = sch, host = None\<rparr>)"

definition new_URL :: "authority_parser \<Rightarrow> string option \<Rightarrow> error + url" where
  "new_URL authority v =
     (case basic_url_parser authority (undefined_to_string v) of
        None \<Rightarrow> Inl ''Invalid URL''
      | Some u \<Rightarrow> Inr u)"

subsection \<open>Regular expressions of the form \<open>/\.(a|b|...)$/i\<close>\<close>

text \<open>
  With the \<open>i\<close> flag two characters match when their canonical forms (the upper-case
  mapping, which never sends a character above 127 to one below) are equal. The patterns
  hold ASCII characters only, so only the mapping of \<open>a\<close>..\<open>z\<close> decides a match here.
\<close>

definition canonicalize :: "char \<Rightarrow> char" where
  "canonicalize c =
     (let n = (of_char c :: nat) in if 97 \<le> n \<and> n \<le> 122 then char_of (n - 32) else c)"

definition matches_at_end :: "string \<Rightarrow> string \<Rightarrow> bool" where
  "matches_at_end pattern s =
     (length pattern \<le> length s \<and>
      map canonicalize (drop (length s - length pattern) s) = map canonicalize pattern)"

definition test_extension :: "string list \<Rightarrow> string \<Rightarrow> bool" where
  "test_extension alternatives s =
     list_ex (\<lambda>alt. matches_at_end (CHR ''.'' # alt) s) alternatives"

section \<open>The worker\<close>

subsection \<open>The outside world\<close>

text \<open>
  Every call that leaves the worker (the download, reading its body, the calls to the
  Telegram Bot API) has its outcome fixed by a \<open>world\<close>; the worker's run is a trace of
  the calls it made together with its own outcome, \<open>Inl\<close> for a thrown error.
\<close>

type_synonym blob = string

datatype upload_kind = Photo | Video | Audio | Document

datatype action =
    Fetch string
  | ReadBody
  | SendMessage int string
  | Upload upload_kind int blob string

record response =
  ok :: bool
  statusText :: string
  content_length :: "string option"
  content_type :: "string option"
  blob :: "error + blob"

datatype api_reply = CallFails error | Reply bool "string option"

record world =
  url_authority :: authority_parser
  fetch :: "string \<Rightarrow> error + response"
  telegram_sendMessage :: "int \<Rightarrow> string \<Rightarrow> error option"
  telegram_upload :: "upload_kind \<Rightarrow> int \<Rightarrow> blob \<Rightarrow> string \<Rightarrow> api_reply"

type_synonym 'a run = "action list \<times> (error + 'a)"

definition andThen :: "'a run \<Rightarrow> ('a \<Rightarrow> 'b run) \<Rightarrow> 'b run" where
  \<comment> \<open>\<open>await\<close> one step, then go on unless it threw\<close>
  "andThen m f =
     (case m of
        (tr, Inl e) \<Rightarrow> (tr, Inl e)
      | (tr, Inr x) \<Rightarrow> (case f x of (tr', r) \<Rightarrow> (tr @ tr', r)))"

definition tryCatch :: "'a run \<Rightarrow> (error \<Rightarrow> 'a run) \<Rightarrow> 'a run" where
  "tryCatch m handler =
     (case m of
        (tr, Inl e) \<Rightarrow> (case handler e of (tr', r) \<Rightarrow> (tr @ tr', r))
      | (tr, Inr x) \<Rightarrow> (tr, Inr x))"

subsection \<open>Helpers of \<open>worker.js\<close>\<close>

definition isValidUrl :: "authority_parser \<Rightarrow> string option \<Rightarrow> bool" where
  "isValidUrl authority string =
     (case new_URL authority string of Inr _ \<Rightarrow> True | Inl _ \<Rightarrow> False)"

definition isImageExtension :: "string \<Rightarrow> bool" where
  "isImageExtension fileName =
     test_extension [''jpg'', ''jpeg'', ''png'', ''gif'', ''bmp'', ''webp'', ''svg''] fileName"

definition isVideoExtension :: "string \<Rightarrow> bool" where
  "isVideoExtension fileName =
     test_extension [''mp4'', ''avi'', ''mov'', ''mkv'', ''wmv'', ''flv'', ''webm''] fileName"

definition isAudioExtension :: "string \<Rightarrow> bool" where
  "isAudioExtension fileName =
     test_extension [''mp3'', ''wav'', ''aac'', ''flac'', ''ogg'', ''m4a''] fileName"

definition sendPlainText :: "world \<Rightarrow> int \<Rightarrow> string \<Rightarrow> unit run" where
  "sendPlainText w chatId text =
     ([SendMessage chatId text],
      case telegram_sendMessage w chatId text of None \<Rightarrow> Inr () | Some e \<Rightarrow> Inl e)"

definition sendPhoto :: "world \<Rightarrow> int \<Rightarrow> blob \<Rightarrow> string \<Rightarrow> unit run" where
  "sendPhoto w chatId fileBlob fileName =
     ([Upload Photo chatId fileBlob fileName],
      case telegram_upload w Photo chatId fileBlob fileName of
        CallFails e \<Rightarrow> Inl e
      | Reply result_ok description \<Rightarrow>
          if \<not> result_ok
          then Inl (''Failed to send photo: '' @ undefined_to_string description)
          else Inr ())"

definition sendVideo :: "world \<Rightarrow> int \<Rightarrow> blob \<Rightarrow> string \<Rightarrow> unit run" where
  "sendVideo w chatId fileBlob fileName =
     ([Upload Video chatId fileBlob fileName],
      case telegram_upload w Video chatId fileBlob fileName of
        CallFails e \<Rightarrow> Inl e
      | Reply result_ok description \<Rightarrow>
          if \<not> result_ok
          then Inl (''Failed to send video: '' @ undefined_to_string description)
          else Inr ())"

definition sendAudio :: "world \<Rightarrow> int \<Rightarrow> blob \<Rightarrow> string \<Rightarrow> unit run" where
  "sendAudio w chatId fileBlob fileName =
     ([Upload Audio chatId fileBlob fileName],
      case telegram_upload w Audio chatId fileBlob fileName of
        CallFails e \<Rightarrow> Inl e
      | Reply result_ok description \<Rightarrow>
          if \<not> result_ok
          then Inl (''Failed to send audio: '' @ undefined_to_string description)
          else Inr ())"

definition sendDocument :: "world \<Rightarrow> int \<Rightarrow> blob \<Rightarrow> string \<Rightarrow> unit run" where
  "sendDocument w chatId fileBlob fileName =
     ([Upload Document chatId fileBlob fileName],
      case telegram_upload w Document chatId fileBlob fileName of
        CallFails e \<Rightarrow> Inl e
      | Reply result_ok description \<Rightarrow>
          if \<not> result_ok
          then Inl (''Failed to send document: '' @ undefined_to_string description)
          else Inr ())"

subsection \<open>\<open>onMessage\<close>\<close>

definition startsWith_of_null :: error where
  "startsWith_of_null = ''Cannot read properties of null (reading 'startsWith')''"

definition split_of_undefined :: error where
  "split_of_undefined = ''Cannot read properties of undefined (reading 'split')''"

definition derive_fileName :: "string \<Rightarrow> string" where
  \<comment> \<open>\<open>text.split('/').pop() || 'file'\<close>\<close>
  "derive_fileName text =
     (case pop (js_split text (CHR ''/'')) of
        None \<Rightarrow> ''file''
      | Some s \<Rightarrow> if s = [] then ''file'' else s)"

text \<open>
  The branch taken by the \<open>if\<close> cascade that picks the upload. The first condition calls
  \<open>contentType.startsWith\<close> before anything else, which throws when the header was absent
  and \<open>contentType\<close> is \<open>null\<close>.
\<close>

definition classify :: "string option \<Rightarrow> string \<Rightarrow> error + upload_kind" where
  "classify contentType lowerCaseFileName =
     (case contentType of
        None \<Rightarrow> Inl startsWith_of_null
      | Some ct \<Rightarrow>
          if startsWith ct ''image/'' \<or> isImageExtension lowerCaseFileName then Inr Photo
          else if startsWith ct ''video/'' \<or> isVideoExtension lowerCaseFileName then Inr Video
          else if startsWith ct ''audio/'' \<or> isAudioExtension lowerCaseFileName then Inr Audio
          else Inr Document)"

fun upload_as :: "upload_kind \<Rightarrow> world \<Rightarrow> int \<Rightarrow> blob \<Rightarrow> string \<Rightarrow> unit run" where
  "upload_as Photo = sendPhoto"
| "upload_as Video = sendVideo"
| "upload_as Audio = sendAudio"
| "upload_as Document = sendDocument"

definition too_large_message :: string where
  "too_large_message = ''The file is too large to send (maximum: 50 MB).''"

definition guidance_message :: string where
  "guidance_message = ''Please send a valid URL to download the file.''"

text \<open>
  A message as the Bot API delivers it: the chat is always there, the text is optional
  (\<open>None\<close> when the message has no \<open>text\<close> field, so that \<open>message.text\<close> is
  \<open>undefined\<close>).
\<close>

record message =
  chat_id :: int
  message_text :: "string option"

definition try_block :: "world \<Rightarrow> int \<Rightarrow> string option \<Rightarrow> unit run" where
  "try_block w chatId text =
     andThen ([Fetch (undefined_to_string text)], fetch w (undefined_to_string text))
       (\<lambda>fileResponse.
          if \<not> ok fileResponse
          then ([], Inl (''Failed to download file: '' @ statusText fileResponse))
          else
            let contentLength = parseInt10 (content_length fileResponse);
                contentType = content_type fileResponse
            in case text of
                 None \<Rightarrow> ([], Inl split_of_undefined)
               | Some t \<Rightarrow>
                   let fileName = derive_fileName t
                   in if greater_than contentLength (50 * 1024 * 1024)
                      then sendPlainText w chatId too_large_message
                      else andThen ([ReadBody], blob fileResponse)
                             (\<lambda>fileBlob.
                                let lowerCaseFileName = toLowerCase fileName
                                in andThen ([], classify contentType lowerCaseFileName)
                                     (\<lambda>kind. upload_as kind w chatId fileBlob fileName)))"

definition onMessage :: "world \<Rightarrow> message \<Rightarrow> unit run" where
  "onMessage w message =
     (let chatId = chat_id message;
          text = message_text message
      in if \<not> isValidUrl (url_authority w) text
         then sendPlainText w chatId guidance_message
         else tryCatch (try_block w chatId text)
                (\<lambda>error. sendPlainText w chatId (''Error: '' @ error)))"

subsection \<open>The webhook\<close>

text \<open>
  The body of a request either fails to parse as JSON (\<open>request.json()\<close> rejects) or is a
  JSON value: one that is not an object, for which the \<open>in\<close> operator throws, or an object
  with or without a \<open>message\<close>. What \<open>event.waitUntil\<close> was given runs in the background:
  its trace and outcome are recorded, and nothing of it reaches the response.
\<close>

datatype update = NotAnObject | Object "message option"

record request =
  secret_token :: "string option"
  json :: "error + update"

record http_response =
  status :: nat
  body :: string

datatype webhook_event = ReadJson | WaitUntil "unit run"

definition in_of_primitive :: error where
  "in_of_primitive = ''Cannot use 'in' operator to search for 'message' in a primitive''"

definition onUpdate :: "world \<Rightarrow> update \<Rightarrow> unit run" where
  "onUpdate w update =
     (case update of
        NotAnObject \<Rightarrow> ([], Inl in_of_primitive)
      | Object None \<Rightarrow> ([], Inr ())
      | Object (Some m) \<Rightarrow> onMessage w m)"

definition handleWebhook ::
  "string \<Rightarrow> world \<Rightarrow> request \<Rightarrow> webhook_event list \<times> (error + http_response)" where
  "handleWebhook SECRET w req =
     (if secret_token req \<noteq> Some SECRET
      then ([], Inr \<lparr>status = 403, body = ''Unauthorized''\<rparr>)
      else case json req of
             Inl e \<Rightarrow> ([ReadJson], Inl e)
           | Inr update \<Rightarrow>
               ([ReadJson, WaitUntil (onUpdate w update)], Inr \<lparr>status = 200, body = ''Ok''\<rparr>))"

section \<open>The specification's display name\<close>

text \<open>
  The specification derives the display name from the path of the URL: the last path
  segment, or \<open>file\<close> when the path is empty or ends in a separator. The path is what
  follows the scheme and the authority, up to the query or the fragment.
\<close>

definition spec_path :: "string \<Rightarrow> string" where
  "spec_path u =
     (let after_scheme = (if CHR '':'' \<in> set u then tl (dropWhile (\<lambda>c. c \<noteq> CHR '':'') u) else u);
          after_authority =
            (if startsWith after_scheme ''//''
             then dropWhile (\<lambda>c. c \<notin> {CHR ''/'', CHR ''?'', CHR ''#''}) (drop 2 after_scheme)
             else after_scheme)
      in takeWhile (\<lambda>c. c \<notin> {CHR ''?'', CHR ''#''}) after_authority)"

definition spec_display_name :: "string \<Rightarrow> string" where
  "spec_display_name u =
     (let segment = rev (takeWhile (\<lambda>c. c \<noteq> CHR ''/'') (rev (spec_path u)))
      in if segment = [] then ''file'' else segment)"

section \<open>Worlds for the examples\<close>

definition example_authority :: authority_parser where
  \<comment> \<open>accepts \<open>//host...\<close> with a non-empty host; stands for the platform's host parser\<close>
  "example_authority sch remaining =
     (let h = takeWhile (\<lambda>c. c \<notin> {CHR ''/'', CHR ''?'', CHR ''#''}) (drop 2 remaining)
      in if startsWith remaining ''//'' \<and> h \<noteq> [] then Some \<lparr>scheme = sch, host = Some h\<rparr>
         else None)"

definition world_serving :: "error + response \<Rightarrow> world" where
  \<comment> \<open>every download has the given outcome, every call to Telegram succeeds\<close>
  "world_serving r =
     \<lparr>url_authority = example_authority,
      fetch = (\<lambda>_. r),
      telegram_sendMessage = (\<lambda>_ _. None),
      telegram_upload = (\<lambda>_ _ _ _. Reply True None)\<rparr>"

definition world_offline :: "error \<Rightarrow> world" where
  \<comment> \<open>a download is served, and every call to Telegram fails with the given error\<close>
  "world_offline e =
     \<lparr>url_authority = example_authority,
      fetch = (\<lambda>_. Inr \<lparr>ok = True, statusText = ''OK'', content_length = Some ''60000000'',
                        content_type = Some ''video/mp4'', blob = Inr ''bytes''\<rparr>),
      telegram_sendMessage = (\<lambda>_ _. Some e),
      telegram_upload = (\<lambda>_ _ _ _. CallFails e)\<rparr>"

definition response_declaring :: "string option \<Rightarrow> string option \<Rightarrow> response" where
  \<comment> \<open>a successful response with the given \<open>content-length\<close> and \<open>content-type\<close> headers\<close>
  "response_declaring len type =
     \<lparr>ok = True, statusText = ''OK'', content_length = len, content_type = type,
      blob = Inr ''bytes''\<rparr>"

section \<open>Facts about the built-ins\<close>

lemma split_from_nonempty: "split_from sep cur s \<noteq> []"
  by (induction s arbitrary: cur) auto

lemma js_split_nonempty: "js_split t sep \<noteq> []"
  by (simp add: js_split_def split_from_nonempty)

lemma last_split_from:
  "last (split_from sep cur s) =
     (if sep \<in> set s then rev (takeWhile (\<lambda>c. c \<noteq> sep) (rev s)) else cur @ s)"
proof (induction s arbitrary: cur)
  case Nil
  then show ?case by simp
next
  case (Cons c cs)
  show ?case
  proof (cases "c = sep")
    case True
    have "last (split_from sep cur (c # cs)) = last (split_from sep [] cs)"
      using True by (simp add: split_from_nonempty)
    also have "\<dots> = (if sep \<in> set cs then rev (takeWhile (\<lambda>c. c \<noteq> sep) (rev cs)) else cs)"
      by (simp add: Cons.IH)
    also have "\<dots> = rev (takeWhile (\<lambda>c. c \<noteq> sep) (rev (c # cs)))"
      using True by (simp add: takeWhile_append)
    finally show ?thesis using True by simp
  next
    case False
    have "last (split_from sep cur (c # cs)) = last (split_from sep (cur @ [c]) cs)"
      using False by simp
    also have "\<dots> = (if sep \<in> set cs then rev (takeWhile (\<lambda>c. c \<noteq> sep) (rev cs))
                       else cur @ c # cs)"
      by (simp add: Cons.IH)
    finally show ?thesis using False by (auto simp: takeWhile_append)
  qed
qed

lemma last_segment:
  "last (js_split t sep) = rev (takeWhile (\<lambda>c. c \<noteq> sep) (rev t))"
proof (cases "sep \<in> set t")
  case True
  then show ?thesis by (simp add: js_split_def last_split_from)
next
  case False
  then have "takeWhile (\<lambda>c. c \<noteq> sep) (rev t) = rev t"
    by auto
  then have "rev (takeWhile (\<lambda>c. c \<noteq> sep) (rev t)) = t"
    by (simp only: rev_rev_ident)
  moreover from False have "last (js_split t sep) = t"
    by (simp add: js_split_def last_split_from)
  ultimately show ?thesis by (simp only:)
qed

lemma derive_fileName_eq:
  "derive_fileName t =
     (let s = rev (takeWhile (\<lambda>c. c \<noteq> CHR ''/'') (rev t)) in if s = [] then ''file'' else s)"
  by (simp add: derive_fileName_def pop_def last_segment js_split_nonempty Let_def)

lemma parseInt10_null: "parseInt10 None = None"
  by (simp add: parseInt10_def null_to_string_def isStrWhiteSpaceChar_def isDigit_def)

lemma undefined_is_not_a_url: "\<not> isValidUrl a None"
  by (simp add: isValidUrl_def new_URL_def basic_url_parser_def undefined_to_string_def
      scheme_start_state_def trim_input_def isC0ControlOrSpace_def isAsciiTabOrNewline_def
      isAsciiAlpha_def isDigit_def)

lemma startsWith_exclusive:
  "startsWith ct p \<Longrightarrow> startsWith ct q \<Longrightarrow> prefix p q \<or> prefix q p"
  unfolding startsWith_def by (rule prefix_same_cases)

lemma video_not_image: "startsWith ct ''video/'' \<Longrightarrow> \<not> startsWith ct ''image/''"
  using startsWith_exclusive[of ct "''video/''" "''image/''"] by auto

lemma audio_not_image: "startsWith ct ''audio/'' \<Longrightarrow> \<not> startsWith ct ''image/''"
  using startsWith_exclusive[of ct "''audio/''" "''image/''"] by auto

lemma audio_not_video: "startsWith ct ''audio/'' \<Longrightarrow> \<not> startsWith ct ''video/''"
  using startsWith_exclusive[of ct "''audio/''" "''video/''"] by auto

lemma matches_at_end_suffix:
  "matches_at_end p s = suffix (map canonicalize p) (map canonicalize s)"
proof
  assume "matches_at_end p s"
  then have e: "map canonicalize (drop (length s - length p) s) = map canonicalize p"
    by (simp add: matches_at_end_def)
  have "map canonicalize s =
        map canonicalize (take (length s - length p) s) @
        map canonicalize (drop (length s - length p) s)"
    by (simp flip: map_append)
  then show "suffix (map canonicalize p) (map canonicalize s)"
    using e by (metis suffixI)
next
  assume "suffix (map canonicalize p) (map canonicalize s)"
  then obtain zs where z: "map canonicalize s = zs @ map canonicalize p"
    by (auto simp: suffix_def)
  then have len: "length s = length zs + length p"
    by (metis length_append length_map)
  have "map canonicalize (drop (length s - length p) s) = drop (length zs) (map canonicalize s)"
    using len by (simp add: drop_map)
  also have "\<dots> = map canonicalize p" using z by simp
  finally show "matches_at_end p s" using len by (simp add: matches_at_end_def)
qed

lemma test_extension_suffix:
  "test_extension alts s =
     (\<exists>alt\<in>set alts. suffix (map canonicalize (CHR ''.'' # alt)) (map canonicalize s))"
  by (simp add: test_extension_def list_ex_iff matches_at_end_suffix)

lemma test_extension_found:
  assumes "alt \<in> set alts" and "suffix (CHR ''.'' # alt) s"
  shows "test_extension alts s"
  using assms map_mono_suffix[of "CHR ''.'' # alt" s canonicalize]
  unfolding test_extension_suffix by blast

lemma test_extension_excluded:
  assumes "suffix e s"
    and "list_all (\<lambda>alt. \<not> suffix (map canonicalize (CHR ''.'' # alt)) (map canonicalize e) \<and>
                          \<not> suffix (map canonicalize e) (map canonicalize (CHR ''.'' # alt))) alts"
  shows "\<not> test_extension alts s"
proof
  assume "test_extension alts s"
  then obtain alt where a: "alt \<in> set alts"
    and s: "suffix (map canonicalize (CHR ''.'' # alt)) (map canonicalize s)"
    unfolding test_extension_suffix by blast
  have "suffix (map canonicalize e) (map canonicalize s)"
    using assms(1) by (rule map_mono_suffix)
  with s have "suffix (map canonicalize (CHR ''.'' # alt)) (map canonicalize e) \<or>
               suffix (map canonicalize e) (map canonicalize (CHR ''.'' # alt))"
    by (rule suffix_same_cases)
  moreover have "\<not> suffix (map canonicalize (CHR ''.'' # alt)) (map canonicalize e) \<and>
                 \<not> suffix (map canonicalize e) (map canonicalize (CHR ''.'' # alt))"
    using assms(2) a by (simp add: list_all_iff)
  ultimately show False by blast
qed

lemma mp4_is_no_image:
  "list_all (\<lambda>alt. \<not> suffix (map canonicalize (CHR ''.'' # alt)) (map canonicalize ''.mp4'') \<and>
                    \<not> suffix (map canonicalize ''.mp4'') (map canonicalize (CHR ''.'' # alt)))
     [''jpg'', ''jpeg'', ''png'', ''gif'', ''bmp'', ''webp'', ''svg'']"
  by code_simp

lemma mp3_is_no_image:
  "list_all (\<lambda>alt. \<not> suffix (map canonicalize (CHR ''.'' # alt)) (map canonicalize ''.mp3'') \<and>
                    \<not> suffix (map canonicalize ''.mp3'') (map canonicalize (CHR ''.'' # alt)))
     [''jpg'', ''jpeg'', ''png'', ''gif'', ''bmp'', ''webp'', ''svg'']"
  by code_simp

lemma mp3_is_no_video:
  "list_all (\<lambda>alt. \<not> suffix (map canonicalize (CHR ''.'' # alt)) (map canonicalize ''.mp3'') \<and>
                    \<not> suffix (map canonicalize ''.mp3'') (map canonicalize (CHR ''.'' # alt)))
     [''mp4'', ''avi'', ''mov'', ''mkv'', ''wmv'', ''flv'', ''webm'']"
  by code_simp

section \<open>Facts about the pipeline\<close>

lemma onMessage_invalid:
  "\<not> isValidUrl (url_authority w) (message_text m) \<Longrightarrow>
   onMessage w m = sendPlainText w (chat_id m) guidance_message"
  by (simp add: onMessage_def)

lemma onMessage_valid:
  "isValidUrl (url_authority w) (message_text m) \<Longrightarrow>
   onMessage w m =
     tryCatch (try_block w (chat_id m) (message_text m))
       (\<lambda>error. sendPlainText w (chat_id m) (''Error: '' @ error))"
  by (simp add: onMessage_def Let_def)

lemma fst_tryCatch: "\<exists>more. fst (tryCatch m h) = fst m @ more"
  by (auto simp: tryCatch_def split: prod.splits sum.splits)

lemma fetch_first_in_try_block:
  "\<exists>rest. fst (try_block w c text) = Fetch (undefined_to_string text) # rest"
  by (auto simp: try_block_def andThen_def split: sum.splits prod.splits)

text \<open>Where the \<open>try\<close> block can throw, step by step.\<close>

lemma try_block_fetch_throws:
  "fetch w t = Inl e \<Longrightarrow> try_block w c (Some t) = ([Fetch t], Inl e)"
  by (simp add: try_block_def andThen_def undefined_to_string_def)

lemma try_block_bad_status:
  "fetch w t = Inr r \<Longrightarrow> \<not> ok r \<Longrightarrow>
   try_block w c (Some t) = ([Fetch t], Inl (''Failed to download file: '' @ statusText r))"
  by (simp add: try_block_def andThen_def undefined_to_string_def)

lemma try_block_too_large:
  assumes "fetch w t = Inr r" and "ok r"
    and "greater_than (parseInt10 (content_length r)) (50 * 1024 * 1024)"
  shows "try_block w c (Some t) =
           ([Fetch t, SendMessage c too_large_message],
            case telegram_sendMessage w c too_large_message of None \<Rightarrow> Inr () | Some e \<Rightarrow> Inl e)"
  using assms
  by (simp add: try_block_def andThen_def undefined_to_string_def sendPlainText_def Let_def)

lemma try_block_blob_throws:
  assumes "fetch w t = Inr r" and "ok r"
    and "\<not> greater_than (parseInt10 (content_length r)) (50 * 1024 * 1024)"
    and "blob r = Inl e"
  shows "try_block w c (Some t) = ([Fetch t, ReadBody], Inl e)"
  using assms
  by (simp add: try_block_def andThen_def undefined_to_string_def Let_def)

lemma try_block_classify_throws:
  assumes "fetch w t = Inr r" and "ok r"
    and "\<not> greater_than (parseInt10 (content_length r)) (50 * 1024 * 1024)"
    and "blob r = Inr b" and "content_type r = None"
  shows "try_block w c (Some t) = ([Fetch t, ReadBody], Inl startsWith_of_null)"
  using assms
  by (simp add: try_block_def andThen_def undefined_to_string_def classify_def Let_def)

lemma try_block_upload:
  assumes "fetch w t = Inr r" and "ok r"
    and "\<not> greater_than (parseInt10 (content_length r)) (50 * 1024 * 1024)"
    and "blob r = Inr b"
    and "classify (content_type r) (toLowerCase (derive_fileName t)) = Inr k"
  shows "try_block w c (Some t) =
           (Fetch t # ReadBody # fst (upload_as k w c b (derive_fileName t)),
            snd (upload_as k w c b (derive_fileName t)))"
  using assms
  by (simp add: try_block_def andThen_def undefined_to_string_def Let_def split: prod.splits)

lemma try_block_allowed_through:
  assumes "fetch w t = Inr r" and "ok r"
    and "\<not> greater_than (parseInt10 (content_length r)) (50 * 1024 * 1024)"
  shows "\<exists>rest. fst (try_block w c (Some t)) = Fetch t # ReadBody # rest"
  using assms
  by (auto simp: try_block_def andThen_def undefined_to_string_def Let_def
      split: sum.splits prod.splits)

section \<open>Classification\<close>

text \<open>
  Claim C1, as amended. The cascade tests, kind by kind, the media type \<^emph>\<open>or\<close> the
  extension: a declared \<open>image/*\<close> type gives Photo whatever the file name; a declared
  \<open>video/*\<close> type gives Video unless the file name has an image extension, which gives
  Photo; a declared \<open>audio/*\<close> type gives Audio unless the file name has an image
  extension (Photo) or a video extension (Video).
\<close>

theorem classify_by_media_type:
  "(startsWith ct ''image/'' \<longrightarrow> classify (Some ct) n = Inr Photo) \<and>
   (startsWith ct ''video/'' \<longrightarrow>
      classify (Some ct) n = Inr (if isImageExtension n then Photo else Video)) \<and>
   (startsWith ct ''audio/'' \<longrightarrow>
      classify (Some ct) n =
        Inr (if isImageExtension n then Photo else if isVideoExtension n then Video else Audio))"
  by (auto simp: classify_def dest: video_not_image audio_not_image audio_not_video)

theorem classify_by_media_type_witness:
  "startsWith ''image/png'' ''image/'' \<and> classify (Some ''image/png'') ''clip.mp4'' = Inr Photo \<and>
   startsWith ''video/mp4'' ''video/'' \<and> classify (Some ''video/mp4'') ''clip.mp3'' = Inr Video \<and>
   startsWith ''audio/ogg'' ''audio/'' \<and> classify (Some ''audio/ogg'') ''clip.zip'' = Inr Audio"
proof -
  have i: "startsWith ''image/png'' ''image/''" by code_simp
  have v: "startsWith ''video/mp4'' ''video/''" by code_simp
  have a: "startsWith ''audio/ogg'' ''audio/''" by code_simp
  have nv: "\<not> isImageExtension ''clip.mp3''" by code_simp
  have na: "\<not> isImageExtension ''clip.zip'' \<and> \<not> isVideoExtension ''clip.zip''" by code_simp
  show ?thesis
    using i v a nv na
      classify_by_media_type[of "''image/png''" "''clip.mp4''"]
      classify_by_media_type[of "''video/mp4''" "''clip.mp3''"]
      classify_by_media_type[of "''audio/ogg''" "''clip.zip''"]
    by simp
qed

text \<open>
  Claim C1 as stated fails: a resource declared \<open>video/mp4\<close> whose name ends in \<open>.jpg\<close>
  is sent as a Photo, because the image test on the extension comes before the video test
  on the media type.
\<close>

theorem classify_priority_counterexample:
  "startsWith ''video/mp4'' ''video/'' \<and>
   classify (Some ''video/mp4'') (toLowerCase ''clip.jpg'') = Inr Photo"
  by code_simp

text \<open>
  With a declared media type the cascade always ends in one of the four kinds, and an
  extension decides when the type is none of \<open>image/*\<close>, \<open>video/*\<close>, \<open>audio/*\<close>.
\<close>

lemma classify_present_total: "\<exists>k. classify (Some ct) n = Inr k"
  by (simp add: classify_def)

lemma classify_fallback:
  assumes "\<not> startsWith ct ''image/''" and "\<not> startsWith ct ''video/''"
    and "\<not> startsWith ct ''audio/''"
    and "\<not> isImageExtension n" and "\<not> isVideoExtension n" and "\<not> isAudioExtension n"
  shows "classify (Some ct) n = Inr Document"
  using assms by (simp add: classify_def)

lemma extension_fallback_present:
  assumes "\<not> startsWith ct ''image/''" and "\<not> startsWith ct ''video/''"
    and "\<not> startsWith ct ''audio/''"
  shows "(suffix ''.jpg'' (toLowerCase fileName) \<longrightarrow>
            classify (Some ct) (toLowerCase fileName) = Inr Photo) \<and>
         (suffix ''.mp4'' (toLowerCase fileName) \<longrightarrow>
            classify (Some ct) (toLowerCase fileName) = Inr Video) \<and>
         (suffix ''.mp3'' (toLowerCase fileName) \<longrightarrow>
            classify (Some ct) (toLowerCase fileName) = Inr Audio)"
proof (intro conjI impI)
  assume "suffix ''.jpg'' (toLowerCase fileName)"
  then have "isImageExtension (toLowerCase fileName)"
    unfolding isImageExtension_def by (intro test_extension_found[of "''jpg''"]) simp_all
  then show "classify (Some ct) (toLowerCase fileName) = Inr Photo"
    by (simp add: classify_def)
next
  assume s: "suffix ''.mp4'' (toLowerCase fileName)"
  have "\<not> isImageExtension (toLowerCase fileName)"
    unfolding isImageExtension_def by (rule test_extension_excluded[OF s mp4_is_no_image])
  moreover have "isVideoExtension (toLowerCase fileName)"
    unfolding isVideoExtension_def using s by (intro test_extension_found[of "''mp4''"]) simp_all
  ultimately show "classify (Some ct) (toLowerCase fileName) = Inr Video"
    using assms by (simp add: classify_def)
next
  assume s: "suffix ''.mp3'' (toLowerCase fileName)"
  have "\<not> isImageExtension (toLowerCase fileName)"
    unfolding isImageExtension_def by (rule test_extension_excluded[OF s mp3_is_no_image])
  moreover have "\<not> isVideoExtension (toLowerCase fileName)"
    unfolding isVideoExtension_def by (rule test_extension_excluded[OF s mp3_is_no_video])
  moreover have "isAudioExtension (toLowerCase fileName)"
    unfolding isAudioExtension_def using s by (intro test_extension_found[of "''mp3''"]) simp_all
  ultimately show "classify (Some ct) (toLowerCase fileName) = Inr Audio"
    using assms by (simp add: classify_def)
qed

text \<open>
  Claim C2, at the input where the code departs from it. The download of
  \<open>https://example.com/archive.zip\<close> succeeds without a \<open>content-type\<close> header:
  \<open>contentType\<close> is \<open>null\<close>, the first test of the cascade throws, and the chat gets the
  error text in place of a Document upload.
\<close>

theorem classification_without_media_type:
  "classify None (toLowerCase ''archive.zip'') = Inl startsWith_of_null \<and>
   onMessage (world_serving (Inr (response_declaring (Some ''1000'') None)))
     \<lparr>chat_id = 7, message_text = Some ''https://example.com/archive.zip''\<rparr> =
   ([Fetch ''https://example.com/archive.zip'', ReadBody,
     SendMessage 7 (''Error: '' @ startsWith_of_null)], Inr ())"
  by code_simp

text \<open>
  Claim C3, at the input where the code departs from it. The name \<open>movie.MP4\<close> ends in
  \<open>.mp4\<close> once in lower case, but with the \<open>content-type\<close> header absent the cascade
  throws before any extension is looked at, and nothing is uploaded.
\<close>

theorem extension_without_media_type:
  "suffix ''.mp4'' (toLowerCase ''movie.MP4'') \<and>
   classify None (toLowerCase ''movie.MP4'') = Inl startsWith_of_null \<and>
   onMessage (world_serving (Inr (response_declaring None None)))
     \<lparr>chat_id = 7, message_text = Some ''https://example.com/movie.MP4''\<rparr> =
   ([Fetch ''https://example.com/movie.MP4'', ReadBody,
     SendMessage 7 (''Error: '' @ startsWith_of_null)], Inr ())"
  by code_simp

section \<open>The size gate\<close>

text \<open>
  Claim C4. After a successful download of a valid URL: when the declared
  \<open>content-length\<close> parses to more than \<open>50 * 1024 * 1024\<close>, the run is the download
  followed by the literal too-large message, the body is never read, and the only thing
  that can follow is the report of that message's own failure to be sent; when the header
  is absent or does not parse, the check lets the resource through and the body is read
  next.
\<close>

theorem size_gate:
  assumes "isValidUrl (url_authority w) (Some t)" and "fetch w t = Inr r" and "ok r"
  shows "(\<forall>n. parseInt10 (content_length r) = Some n \<and> n > 50 * 1024 * 1024 \<longrightarrow>
            fst (onMessage w \<lparr>chat_id = c, message_text = Some t\<rparr>) =
              [Fetch t, SendMessage c too_large_message] @
              (case telegram_sendMessage w c too_large_message of
                 None \<Rightarrow> [] | Some e \<Rightarrow> [SendMessage c (''Error: '' @ e)]) \<and>
            ReadBody \<notin> set (fst (onMessage w \<lparr>chat_id = c, message_text = Some t\<rparr>))) \<and>
         (content_length r = None \<or> parseInt10 (content_length r) = None \<longrightarrow>
            (\<exists>rest. fst (onMessage w \<lparr>chat_id = c, message_text = Some t\<rparr>) =
                      Fetch t # ReadBody # rest))"
proof (intro conjI allI impI)
  fix n
  assume "parseInt10 (content_length r) = Some n \<and> n > 50 * 1024 * 1024"
  then have g: "greater_than (parseInt10 (content_length r)) (50 * 1024 * 1024)"
    by (simp add: greater_than_def)
  have run: "onMessage w \<lparr>chat_id = c, message_text = Some t\<rparr> =
      tryCatch (try_block w c (Some t)) (\<lambda>error. sendPlainText w c (''Error: '' @ error))"
    using assms(1) by (simp add: onMessage_valid)
  show "fst (onMessage w \<lparr>chat_id = c, message_text = Some t\<rparr>) =
              [Fetch t, SendMessage c too_large_message] @
              (case telegram_sendMessage w c too_large_message of
                 None \<Rightarrow> [] | Some e \<Rightarrow> [SendMessage c (''Error: '' @ e)])"
    by (simp add: run try_block_too_large[OF assms(2,3) g] tryCatch_def sendPlainText_def
        split: option.splits)
  then show "ReadBody \<notin> set (fst (onMessage w \<lparr>chat_id = c, message_text = Some t\<rparr>))"
    by (simp split: option.splits)
next
  assume "content_length r = None \<or> parseInt10 (content_length r) = None"
  then have "parseInt10 (content_length r) = None"
    using parseInt10_null by auto
  then have g: "\<not> greater_than (parseInt10 (content_length r)) (50 * 1024 * 1024)"
    by (simp add: greater_than_def)
  have run: "onMessage w \<lparr>chat_id = c, message_text = Some t\<rparr> =
      tryCatch (try_block w c (Some t)) (\<lambda>error. sendPlainText w c (''Error: '' @ error))"
    using assms(1) by (simp add: onMessage_valid)
  obtain rest where "fst (try_block w c (Some t)) = Fetch t # ReadBody # rest"
    using try_block_allowed_through[OF assms(2,3) g] by blast
  moreover obtain more where
    "fst (onMessage w \<lparr>chat_id = c, message_text = Some t\<rparr>) =
       fst (try_block w c (Some t)) @ more"
    using fst_tryCatch run by metis
  ultimately show "\<exists>rest. fst (onMessage w \<lparr>chat_id = c, message_text = Some t\<rparr>) =
                      Fetch t # ReadBody # rest"
    by simp
qed

theorem size_gate_witness:
  "isValidUrl (url_authority (world_serving (Inr (response_declaring (Some ''60000000'') (Some ''video/mp4'')))))
     (Some ''https://example.com/big.mp4'') \<and>
   parseInt10 (content_length (response_declaring (Some ''60000000'') (Some ''video/mp4''))) =
     Some 60000000 \<and>
   fst (onMessage (world_serving (Inr (response_declaring (Some ''60000000'') (Some ''video/mp4''))))
          \<lparr>chat_id = 7, message_text = Some ''https://example.com/big.mp4''\<rparr>) =
     [Fetch ''https://example.com/big.mp4'', SendMessage 7 too_large_message] \<and>
   parseInt10 (content_length (response_declaring (Some ''unknown'') (Some ''video/mp4''))) = None \<and>
   (\<exists>rest. fst (onMessage (world_serving (Inr (response_declaring (Some ''unknown'') (Some ''video/mp4''))))
                 \<lparr>chat_id = 7, message_text = Some ''https://example.com/big.mp4''\<rparr>) =
            Fetch ''https://example.com/big.mp4'' # ReadBody # rest)"
proof -
  let ?big = "response_declaring (Some ''60000000'') (Some ''video/mp4'')"
  let ?unknown = "response_declaring (Some ''unknown'') (Some ''video/mp4'')"
  let ?t = "''https://example.com/big.mp4''"
  have v1: "isValidUrl (url_authority (world_serving (Inr ?big))) (Some ?t)" by code_simp
  have v2: "isValidUrl (url_authority (world_serving (Inr ?unknown))) (Some ?t)" by code_simp
  have f1: "fetch (world_serving (Inr ?big)) ?t = Inr ?big" by (simp add: world_serving_def)
  have f2: "fetch (world_serving (Inr ?unknown)) ?t = Inr ?unknown"
    by (simp add: world_serving_def)
  have o1: "ok ?big" and o2: "ok ?unknown" by (simp_all add: response_declaring_def)
  have p1: "parseInt10 (content_length ?big) = Some 60000000" by code_simp
  have p2: "parseInt10 (content_length ?unknown) = None" by code_simp
  have s: "telegram_sendMessage (world_serving (Inr ?big)) 7 too_large_message = None"
    by (simp add: world_serving_def)
  show ?thesis
    using v1 p1 p2 s size_gate[OF v1 f1 o1, of 7] size_gate[OF v2 f2 o2, of 7]
    by simp
qed

section \<open>URL validation\<close>

text \<open>
  Claim C5, as amended. The pipeline goes on to the download exactly when the URL
  constructor accepts the message text, which takes a scheme but not a host; for every text
  the constructor rejects, the run is the literal guidance message alone, with no download.
\<close>

theorem url_validation:
  "(isValidUrl (url_authority w) (message_text m) \<longleftrightarrow>
      (\<exists>u. Fetch u \<in> set (fst (onMessage w m)))) \<and>
   (\<not> isValidUrl (url_authority w) (message_text m) \<longrightarrow>
      fst (onMessage w m) = [SendMessage (chat_id m) guidance_message]) \<and>
   (isValidUrl (url_authority w) (message_text m) \<longrightarrow>
      scheme_start_state (trim_input (undefined_to_string (message_text m))) \<noteq> None)"
proof (cases "isValidUrl (url_authority w) (message_text m)")
  case True
  obtain rest where "fst (try_block w (chat_id m) (message_text m)) =
      Fetch (undefined_to_string (message_text m)) # rest"
    using fetch_first_in_try_block by blast
  moreover obtain more where
    "fst (onMessage w m) = fst (try_block w (chat_id m) (message_text m)) @ more"
    using fst_tryCatch onMessage_valid[OF True] by metis
  ultimately have "Fetch (undefined_to_string (message_text m)) \<in> set (fst (onMessage w m))"
    by simp
  moreover have "scheme_start_state (trim_input (undefined_to_string (message_text m))) \<noteq> None"
    using True
    by (auto simp: isValidUrl_def new_URL_def basic_url_parser_def split: option.splits)
  ultimately show ?thesis using True by blast
next
  case False
  then have "fst (onMessage w m) = [SendMessage (chat_id m) guidance_message]"
    by (simp add: onMessage_invalid sendPlainText_def)
  then show ?thesis using False by simp
qed

theorem url_validation_witness:
  "isValidUrl (url_authority (world_serving (Inl ''connection refused'')))
     (Some ''https://example.com/cat.png'') \<and>
   Fetch ''https://example.com/cat.png'' \<in>
     set (fst (onMessage (world_serving (Inl ''connection refused''))
                 \<lparr>chat_id = 7, message_text = Some ''https://example.com/cat.png''\<rparr>)) \<and>
   \<not> isValidUrl (url_authority (world_serving (Inl ''connection refused''))) (Some ''not a url'') \<and>
   fst (onMessage (world_serving (Inl ''connection refused''))
          \<lparr>chat_id = 7, message_text = Some ''not a url''\<rparr>) =
     [SendMessage 7 guidance_message]"
proof -
  let ?w = "world_serving (Inl ''connection refused'')"
  have v: "isValidUrl (url_authority ?w) (Some ''https://example.com/cat.png'')" by code_simp
  have n: "\<not> isValidUrl (url_authority ?w) (Some ''not a url'')" by code_simp
  have f: "Fetch ''https://example.com/cat.png'' \<in>
     set (fst (onMessage ?w \<lparr>chat_id = 7, message_text = Some ''https://example.com/cat.png''\<rparr>))"
    by code_simp
  show ?thesis
    using v n f url_validation[of ?w "\<lparr>chat_id = 7, message_text = Some ''not a url''\<rparr>"]
    by simp
qed

text \<open>
  Claim C5 as stated fails: \<open>mailto:a\<close> has a scheme and no host, the constructor accepts
  it, and the pipeline goes on to the download (which then fails and is reported as an
  error) instead of sending the guidance message.
\<close>

theorem url_validation_counterexample:
  "new_URL example_authority (Some ''mailto:a'') = Inr \<lparr>scheme = ''mailto'', host = None\<rparr> \<and>
   onMessage (world_serving (Inl ''unsupported scheme''))
     \<lparr>chat_id = 7, message_text = Some ''mailto:a''\<rparr> =
   ([Fetch ''mailto:a'', SendMessage 7 ''Error: unsupported scheme''], Inr ())"
  by code_simp

text \<open>
  Claim C10. A message whose text is absent, or is not a parseable URL, is answered with
  the guidance message and nothing else: no download, and no error other than a failure of
  that one message to be sent. The absent text reads as the string \<open>undefined\<close>, which
  has no scheme.
\<close>

theorem missing_text_is_invalid:
  "message_text m = None \<or> \<not> isValidUrl (url_authority w) (message_text m) \<Longrightarrow>
   onMessage w m =
     ([SendMessage (chat_id m) guidance_message],
      case telegram_sendMessage w (chat_id m) guidance_message of
        None \<Rightarrow> Inr () | Some e \<Rightarrow> Inl e)"
proof -
  assume "message_text m = None \<or> \<not> isValidUrl (url_authority w) (message_text m)"
  then have "\<not> isValidUrl (url_authority w) (message_text m)"
    using undefined_is_not_a_url[of "url_authority w"] by auto
  then show ?thesis
    by (simp add: onMessage_invalid sendPlainText_def)
qed

theorem missing_text_is_invalid_witness:
  "message_text \<lparr>chat_id = 7, message_text = None\<rparr> = None \<and>
   onMessage (world_serving (Inr (response_declaring None None)))
     \<lparr>chat_id = 7, message_text = None\<rparr> =
   ([SendMessage 7 guidance_message], Inr ())"
  using missing_text_is_invalid[of "\<lparr>chat_id = 7, message_text = None\<rparr>"
      "world_serving (Inr (response_declaring None None))"]
  by (simp add: world_serving_def)

section \<open>The catch-all\<close>

text \<open>
  Claim C6. For a valid URL, whatever the \<open>try\<close> block threw (in the download, the size
  check, reading the body, the classification or the upload) is caught: the run is the
  block's trace followed by the message \<open>Error: \<close> and the error's text, and
  \<open>onMessage\<close> itself fails only if that last message cannot be sent; when the block
  throws nothing, no error message is sent. The response of the webhook handler is the same
  in every world, so no outcome of the pipeline reaches the dispatcher.
\<close>

theorem catch_all:
  "(isValidUrl (url_authority w) (message_text m) \<longrightarrow>
      (\<forall>tr e. try_block w (chat_id m) (message_text m) = (tr, Inl e) \<longrightarrow>
         onMessage w m =
           (tr @ [SendMessage (chat_id m) (''Error: '' @ e)],
            case telegram_sendMessage w (chat_id m) (''Error: '' @ e) of
              None \<Rightarrow> Inr () | Some e' \<Rightarrow> Inl e')) \<and>
      (\<forall>tr. try_block w (chat_id m) (message_text m) = (tr, Inr ()) \<longrightarrow>
         onMessage w m = (tr, Inr ()))) \<and>
   snd (handleWebhook SECRET w req) = snd (handleWebhook SECRET w' req)"
  by (auto simp: onMessage_valid tryCatch_def sendPlainText_def handleWebhook_def
      split: sum.splits)

theorem catch_all_witness:
  "isValidUrl (url_authority (world_serving (Inl ''connection refused'')))
     (Some ''https://example.com/cat.png'') \<and>
   try_block (world_serving (Inl ''connection refused'')) 7 (Some ''https://example.com/cat.png'') =
     ([Fetch ''https://example.com/cat.png''], Inl ''connection refused'') \<and>
   onMessage (world_serving (Inl ''connection refused''))
     \<lparr>chat_id = 7, message_text = Some ''https://example.com/cat.png''\<rparr> =
   ([Fetch ''https://example.com/cat.png'', SendMessage 7 ''Error: connection refused''], Inr ())"
proof -
  let ?w = "world_serving (Inl ''connection refused'')"
  let ?t = "''https://example.com/cat.png''"
  have v: "isValidUrl (url_authority ?w) (Some ?t)" by code_simp
  have b: "try_block ?w 7 (Some ?t) = ([Fetch ?t], Inl ''connection refused'')"
    by (simp add: try_block_fetch_throws world_serving_def)
  have s: "telegram_sendMessage ?w 7 ''Error: connection refused'' = None"
    by (simp add: world_serving_def)
  show ?thesis
    using v b s catch_all[of ?w "\<lparr>chat_id = 7, message_text = Some ?t\<rparr>"]
    by simp
qed

section \<open>The webhook handler\<close>

text \<open>
  Claim C7, as amended. For every request whose secret header equals the configured secret
  and whose body parses as JSON, the handler answers \<open>200 Ok\<close>, whatever the JSON holds
  and whatever the pipeline does in the world at hand.
\<close>

theorem acknowledgement:
  "secret_token req = Some SECRET \<Longrightarrow> json req = Inr update \<Longrightarrow>
   snd (handleWebhook SECRET w req) = Inr \<lparr>status = 200, body = ''Ok''\<rparr>"
  by (simp add: handleWebhook_def)

theorem acknowledgement_witness:
  "secret_token \<lparr>secret_token = Some ''s3cret'', json = Inr NotAnObject\<rparr> = Some ''s3cret'' \<and>
   json \<lparr>secret_token = Some ''s3cret'', json = Inr NotAnObject\<rparr> = Inr NotAnObject \<and>
   snd (handleWebhook ''s3cret'' (world_offline ''offline'')
          \<lparr>secret_token = Some ''s3cret'', json = Inr NotAnObject\<rparr>) =
     Inr \<lparr>status = 200, body = ''Ok''\<rparr>"
  using acknowledgement[of "\<lparr>secret_token = Some ''s3cret'', json = Inr NotAnObject\<rparr>"
      "''s3cret''" NotAnObject "world_offline ''offline''"]
  by simp

text \<open>
  Claim C7 as stated fails: with the right secret and a body that is not JSON (here an
  empty body), reading the body throws and the handler produces no response at all.
\<close>

theorem acknowledgement_counterexample:
  "handleWebhook ''s3cret'' (world_serving (Inl ''offline''))
     \<lparr>secret_token = Some ''s3cret'', json = Inl ''Unexpected end of JSON input''\<rparr> =
   ([ReadJson], Inl ''Unexpected end of JSON input'')"
  by code_simp

text \<open>
  Claim C8. For every request whose secret header differs from the configured secret (an
  absent header included), the handler answers \<open>403\<close> and does nothing else: the body is
  not read and nothing is handed to the pipeline.
\<close>

theorem authorization:
  "secret_token req \<noteq> Some SECRET \<Longrightarrow>
   handleWebhook SECRET w req = ([], Inr \<lparr>status = 403, body = ''Unauthorized''\<rparr>)"
  by (simp add: handleWebhook_def)

theorem authorization_witness:
  "secret_token \<lparr>secret_token = None,
                 json = Inr (Object (Some \<lparr>chat_id = 7, message_text = Some ''https://example.com/cat.png''\<rparr>))\<rparr>
     \<noteq> Some ''s3cret'' \<and>
   handleWebhook ''s3cret'' (world_serving (Inr (response_declaring None None)))
     \<lparr>secret_token = None,
      json = Inr (Object (Some \<lparr>chat_id = 7, message_text = Some ''https://example.com/cat.png''\<rparr>))\<rparr> =
   ([], Inr \<lparr>status = 403, body = ''Unauthorized''\<rparr>)"
  using authorization[of
      "\<lparr>secret_token = None,
        json = Inr (Object (Some \<lparr>chat_id = 7, message_text = Some ''https://example.com/cat.png''\<rparr>))\<rparr>"
      "''s3cret''" "world_serving (Inr (response_declaring None None))"]
  by simp

section \<open>The display name\<close>

lemma spec_path_suffix:
  assumes "CHR ''?'' \<notin> set u" and "CHR ''#'' \<notin> set u"
  shows "suffix (spec_path u) u"
proof -
  define a where "a = (if CHR '':'' \<in> set u then tl (dropWhile (\<lambda>c. c \<noteq> CHR '':'') u) else u)"
  define b where "b = (if startsWith a ''//''
             then dropWhile (\<lambda>c. c \<notin> {CHR ''/'', CHR ''?'', CHR ''#''}) (drop 2 a) else a)"
  have sa: "suffix a u"
    unfolding a_def
    by (auto intro: suffix_order.trans[OF suffix_tl suffix_dropWhile])
  have sb: "suffix b a"
    unfolding b_def
    by (auto intro: suffix_order.trans[OF suffix_dropWhile suffix_drop])
  have sub: "suffix b u" using sb sa by (rule suffix_order.trans)
  then have "set b \<subseteq> set u" by (rule set_mono_suffix)
  then have "takeWhile (\<lambda>c. c \<notin> {CHR ''?'', CHR ''#''}) b = b"
    using assms by auto
  moreover have "spec_path u = takeWhile (\<lambda>c. c \<notin> {CHR ''?'', CHR ''#''}) b"
    by (simp add: spec_path_def a_def b_def Let_def)
  ultimately have "spec_path u = b" by (simp only:)
  then show ?thesis using sub by (simp only:)
qed

lemma last_segment_of_suffix:
  assumes "suffix p u" and "sep \<in> set p"
  shows "takeWhile (\<lambda>c. c \<noteq> sep) (rev u) = takeWhile (\<lambda>c. c \<noteq> sep) (rev p)"
proof -
  obtain pre where "u = pre @ p" using assms(1) by (auto simp: suffix_def)
  then have "rev u = rev p @ rev pre" by simp
  moreover have "sep \<in> set (rev p)" using assms(2) by simp
  ultimately show ?thesis by (simp add: takeWhile_append1[of sep])
qed

text \<open>
  Claim C9, as amended. The display name is the part of the message text after its last
  \<open>/\<close>, taken from the whole text and not from the URL's path (a query or a fragment stays
  in it), and it is \<open>file\<close> when that part is empty, that is when the text is empty or ends
  in \<open>/\<close>. It is the last path segment of the specification whenever the text has no
  query and no fragment and its path holds a \<open>/\<close>.
\<close>

theorem display_name:
  "(t = [] \<or> last t = CHR ''/'' \<longrightarrow> derive_fileName t = ''file'') \<and>
   (t \<noteq> [] \<and> last t \<noteq> CHR ''/'' \<longrightarrow>
      derive_fileName t = rev (takeWhile (\<lambda>c. c \<noteq> CHR ''/'') (rev t))) \<and>
   (CHR ''?'' \<notin> set t \<and> CHR ''#'' \<notin> set t \<and> CHR ''/'' \<in> set (spec_path t) \<longrightarrow>
      derive_fileName t = spec_display_name t)"
proof -
  have "(takeWhile (\<lambda>c. c \<noteq> CHR ''/'') (rev t) = []) = (t = [] \<or> last t = CHR ''/'')"
    by (cases t rule: rev_cases) auto
  then have "(t = [] \<or> last t = CHR ''/'' \<longrightarrow> derive_fileName t = ''file'') \<and>
   (t \<noteq> [] \<and> last t \<noteq> CHR ''/'' \<longrightarrow>
      derive_fileName t = rev (takeWhile (\<lambda>c. c \<noteq> CHR ''/'') (rev t)))"
    by (simp add: derive_fileName_eq Let_def)
  moreover have "derive_fileName t = spec_display_name t"
    if "CHR ''?'' \<notin> set t" and "CHR ''#'' \<notin> set t" and "CHR ''/'' \<in> set (spec_path t)"
    using last_segment_of_suffix[OF spec_path_suffix[OF that(1,2)] that(3)]
    by (simp add: derive_fileName_eq spec_display_name_def Let_def)
  ultimately show ?thesis by blast
qed

theorem display_name_witness:
  "last ''https://example.com/a/'' = CHR ''/'' \<and>
   derive_fileName ''https://example.com/a/'' = ''file'' \<and>
   last ''https://example.com/cat.png?size=2'' \<noteq> CHR ''/'' \<and>
   derive_fileName ''https://example.com/cat.png?size=2'' = ''cat.png?size=2'' \<and>
   CHR ''/'' \<in> set (spec_path ''https://example.com/cat.png'') \<and>
   derive_fileName ''https://example.com/cat.png'' = spec_display_name ''https://example.com/cat.png''"
proof -
  let ?A = "''https://example.com/a/''"
  let ?B = "''https://example.com/cat.png?size=2''"
  let ?C = "''https://example.com/cat.png''"
  have a: "last ?A = CHR ''/''" by simp
  have b: "?B \<noteq> [] \<and> last ?B \<noteq> CHR ''/''" by simp
  have c: "rev (takeWhile (\<lambda>c. c \<noteq> CHR ''/'') (rev ?B)) = ''cat.png?size=2''" by simp
  have d: "CHR ''/'' \<in> set (spec_path ?C)" by code_simp
  have e: "CHR ''?'' \<notin> set ?C \<and> CHR ''#'' \<notin> set ?C" by simp
  have 1: "derive_fileName ?A = ''file''"
    using a display_name[of ?A] by blast
  have "derive_fileName ?B = rev (takeWhile (\<lambda>c. c \<noteq> CHR ''/'') (rev ?B))"
    using b display_name[of ?B] by blast
  then have 2: "derive_fileName ?B = ''cat.png?size=2''"
    by (simp only: c)
  have 3: "derive_fileName ?C = spec_display_name ?C"
    using d e display_name[of ?C] by blast
  show ?thesis
    using a b d 1 2 3 by blast
qed

text \<open>
  Claim C9 as stated fails: \<open>https://example.com\<close> has an empty path, for which the
  specification gives \<open>file\<close>, and the code names the upload after the host.
\<close>

theorem display_name_counterexample:
  "spec_path ''https://example.com'' = [] \<and>
   spec_display_name ''https://example.com'' = ''file'' \<and>
   derive_fileName ''https://example.com'' = ''example.com''"
  by code_simp

end
